theory Spec2Isabelle
  imports Complex_Main "HOL-Library.Word" "HOL-Library.Multiset"
begin

section \<open>JavaScript values used by the backend\<close>

text \<open>
  A JavaScript string is a sequence of UTF-16 code units; \<open>length\<close> counts code units
  and \<open>String.prototype.trim\<close> strips the code units of the ECMAScript classes
  WhiteSpace and LineTerminator from both ends.
\<close>

type_synonym js_string = "16 word list"

definition js :: "string \<Rightarrow> js_string" where
  \<comment> \<open>an ASCII literal as a JavaScript string\<close>
  "js s = map (\<lambda>c. of_char c) s"

definition is_white_space :: "16 word \<Rightarrow> bool" where
  "is_white_space c \<longleftrightarrow>
     c \<in> {0x0009, 0x000A, 0x000B, 0x000C, 0x000D, 0x0020, 0x00A0, 0x1680,
          0x2000, 0x2001, 0x2002, 0x2003, 0x2004, 0x2005, 0x2006, 0x2007,
          0x2008, 0x2009, 0x200A, 0x2028, 0x2029, 0x202F, 0x205F, 0x3000, 0xFEFF}"

definition trim :: "js_string \<Rightarrow> js_string" where
  "trim s = rev (dropWhile is_white_space (rev (dropWhile is_white_space s)))"

definition falsy :: "js_string \<Rightarrow> bool" where
  \<comment> \<open>\<open>!s\<close> for a string \<open>s\<close>: only the empty string is falsy\<close>
  "falsy s \<longleftrightarrow> s = []"

text \<open>
  \<open>Array.prototype.sort(cmp)\<close> is a stable sort (ECMAScript 2019): an element \<open>x\<close> goes
  before \<open>y\<close> when \<open>cmp x y < 0\<close>, and elements that compare equal keep their order.
\<close>

fun insert_by :: "('a \<Rightarrow> 'a \<Rightarrow> int) \<Rightarrow> 'a \<Rightarrow> 'a list \<Rightarrow> 'a list" where
  "insert_by cmp x [] = [x]"
| "insert_by cmp x (y # ys) =
     (if cmp x y \<le> 0 then x # y # ys else y # insert_by cmp x ys)"

fun js_sort :: "('a \<Rightarrow> 'a \<Rightarrow> int) \<Rightarrow> 'a list \<Rightarrow> 'a list" where
  "js_sort cmp [] = []"
| "js_sort cmp (x # xs) = insert_by cmp x (js_sort cmp xs)"

section \<open>The knowledgeBase table (schema.ts)\<close>

text \<open>
  Document and storage ids are opaque, non-empty strings generated by the database;
  they are modelled as natural numbers. \<open>createdAt\<close> and \<open>updatedAt\<close> hold the
  integer millisecond clock \<open>Date.now()\<close>. The components of an embedding are
  never inspected by this code and are modelled as reals.
\<close>

type_synonym doc_id = nat
type_synonym storage_id = nat

record kb_doc =
  organizationId :: js_string
  title :: js_string
  content :: js_string
  mimeType :: js_string
  fileName :: js_string
  embedUrl :: "js_string option"
  storageId :: "storage_id option"
  embedding :: "real list option"
  createdAt :: int
  updatedAt :: "int option"

text \<open>
  The state the handlers run against: the table in insertion order (the order of the
  index \<open>by_organization_id\<close> within one organization), the id the database hands out
  next, and the blobs of file storage.
\<close>

record kb_state =
  db :: "(doc_id \<times> kb_doc) list"
  next_id :: doc_id
  storage :: "storage_id set"

datatype error_code = UNAUTHORIZED | NOT_FOUND | FORBIDDEN | BAD_REQUEST

text \<open>
  What a handler can throw: a \<open>ConvexError\<close> with a code and a message, or the error
  \<open>ctx.storage.delete\<close> rejects with when the blob does not exist, which no handler
  catches.
\<close>

datatype handler_error = ConvexError error_code string | StorageError

text \<open>
  The object handed to \<open>ctx.db.patch\<close>: a key that is absent leaves the field alone
  (\<open>None\<close>); the key \<open>embedding\<close> present with the value \<open>undefined\<close> removes the
  field (\<open>Some None\<close>).
\<close>

record kb_patch =
  patch_updatedAt :: int
  patch_title :: "js_string option"
  patch_content :: "js_string option"
  patch_embedding :: "real list option option"

definition apply_patch :: "kb_patch \<Rightarrow> kb_doc \<Rightarrow> kb_doc" where
  "apply_patch u d =
     d\<lparr> updatedAt := Some (patch_updatedAt u),
        title := (case patch_title u of None \<Rightarrow> title d | Some t \<Rightarrow> t),
        content := (case patch_content u of None \<Rightarrow> content d | Some c \<Rightarrow> c),
        embedding := (case patch_embedding u of None \<Rightarrow> embedding d | Some e \<Rightarrow> e) \<rparr>"

definition db_get :: "kb_state \<Rightarrow> doc_id \<Rightarrow> kb_doc option" where
  "db_get s i = map_of (db s) i"

definition db_insert :: "kb_doc \<Rightarrow> kb_state \<Rightarrow> doc_id \<times> kb_state" where
  "db_insert d s = (next_id s, s\<lparr> db := db s @ [(next_id s, d)], next_id := Suc (next_id s) \<rparr>)"

definition db_patch :: "doc_id \<Rightarrow> kb_patch \<Rightarrow> kb_state \<Rightarrow> kb_state" where
  "db_patch i u s = s\<lparr> db := map (\<lambda>(j, d). if j = i then (j, apply_patch u d) else (j, d)) (db s) \<rparr>"

definition db_delete :: "doc_id \<Rightarrow> kb_state \<Rightarrow> kb_state" where
  "db_delete i s = s\<lparr> db := filter (\<lambda>(j, d). j \<noteq> i) (db s) \<rparr>"

definition storage_delete :: "storage_id \<Rightarrow> kb_state \<Rightarrow> handler_error + kb_state" where
  \<comment> \<open>\<open>ctx.storage.delete(b)\<close>: removes a stored blob, and rejects when there is none\<close>
  "storage_delete b s =
     (if b \<in> storage s then Inr (s\<lparr> storage := storage s - {b} \<rparr>) else Inl StorageError)"

section \<open>Knowledge base functions (private/knowledgeBase.ts)\<close>

text \<open>
  \<open>ctx.auth.getUserIdentity()\<close> returns \<open>null\<close> or an identity whose \<open>orgId\<close> may be
  missing. Every handler starts with the same two checks, modelled once.
\<close>

record user_identity =
  orgId :: "js_string option"

definition auth_org :: "user_identity option \<Rightarrow> handler_error + js_string" where
  "auth_org ident =
     (case ident of
        None \<Rightarrow> Inl (ConvexError UNAUTHORIZED ''Identity not found'')
      | Some i \<Rightarrow>
          (case orgId i of
             None \<Rightarrow> Inl (ConvexError UNAUTHORIZED ''Organization not found'')
           | Some org \<Rightarrow>
               if falsy org then Inl (ConvexError UNAUTHORIZED ''Organization not found'')
               else Inr org))"

definition by_organization_id :: "js_string \<Rightarrow> kb_state \<Rightarrow> (doc_id \<times> kb_doc) list" where
  \<comment> \<open>\<open>.withIndex("by_organization_id", q => q.eq("organizationId", orgId)).collect()\<close>\<close>
  "by_organization_id org s = filter (\<lambda>(i, d). organizationId d = org) (db s)"

definition newest_first :: "doc_id \<times> kb_doc \<Rightarrow> doc_id \<times> kb_doc \<Rightarrow> int" where
  \<comment> \<open>the comparator \<open>(a, b) => b.createdAt - a.createdAt\<close>\<close>
  "newest_first a b = createdAt (snd b) - createdAt (snd a)"

definition getAll :: "user_identity option \<Rightarrow> kb_state \<Rightarrow> handler_error + (doc_id \<times> kb_doc) list" where
  "getAll ident s =
     (case auth_org ident of
        Inl e \<Rightarrow> Inl e
      | Inr org \<Rightarrow> Inr (js_sort newest_first (by_organization_id org s)))"

definition getOne :: "user_identity option \<Rightarrow> doc_id \<Rightarrow> kb_state \<Rightarrow> handler_error + kb_doc" where
  "getOne ident documentId s =
     (case auth_org ident of
        Inl e \<Rightarrow> Inl e
      | Inr org \<Rightarrow>
          (case db_get s documentId of
             None \<Rightarrow> Inl (ConvexError NOT_FOUND ''Document not found'')
           | Some document \<Rightarrow>
               if organizationId document \<noteq> org
               then Inl (ConvexError FORBIDDEN ''Access denied'')
               else Inr document))"

record create_args =
  arg_title :: js_string
  arg_content :: js_string
  arg_mimeType :: js_string
  arg_fileName :: js_string
  arg_embedUrl :: "js_string option"
  arg_storageId :: "storage_id option"

text \<open>
  The mutations take the clock reading \<open>Date.now()\<close> as the argument \<open>now\<close> and return
  the outcome together with the state they leave behind. Every \<open>throw\<close> of a handler
  comes before its first write, and a mutation that fails commits nothing, so a failed
  call returns the state it was given. In \<open>remove\<close> the call of \<open>ctx.storage.delete\<close>
  is not guarded: when it rejects, the mutation fails before \<open>ctx.db.delete\<close> is reached.
\<close>

definition create ::
  "user_identity option \<Rightarrow> int \<Rightarrow> create_args \<Rightarrow> kb_state \<Rightarrow> (handler_error + doc_id) \<times> kb_state" where
  "create ident now args s =
     (case auth_org ident of
        Inl e \<Rightarrow> (Inl e, s)
      | Inr org \<Rightarrow>
          if falsy (trim (arg_title args))
          then (Inl (ConvexError BAD_REQUEST ''Title cannot be empty''), s)
          else if falsy (trim (arg_content args))
          then (Inl (ConvexError BAD_REQUEST ''Content cannot be empty''), s)
          else
            (let (documentId, s') =
               db_insert \<lparr> organizationId = org, title = arg_title args,
                           content = arg_content args, mimeType = arg_mimeType args,
                           fileName = arg_fileName args, embedUrl = arg_embedUrl args,
                           storageId = arg_storageId args, embedding = None,
                           createdAt = now, updatedAt = None \<rparr> s
             in (Inr documentId, s')))"

definition update_title :: "js_string option \<Rightarrow> kb_patch \<Rightarrow> handler_error + kb_patch" where
  \<comment> \<open>the block \<open>if (args.title !== undefined) { ... }\<close>\<close>
  "update_title title_arg updates =
     (case title_arg of
        None \<Rightarrow> Inr updates
      | Some t \<Rightarrow>
          if falsy (trim t) then Inl (ConvexError BAD_REQUEST ''Title cannot be empty'')
          else Inr (updates\<lparr> patch_title := Some t \<rparr>))"

definition update_content :: "js_string option \<Rightarrow> kb_patch \<Rightarrow> handler_error + kb_patch" where
  \<comment> \<open>the block \<open>if (args.content !== undefined) { ... }\<close>\<close>
  "update_content content_arg updates =
     (case content_arg of
        None \<Rightarrow> Inr updates
      | Some c \<Rightarrow>
          if falsy (trim c) then Inl (ConvexError BAD_REQUEST ''Content cannot be empty'')
          else Inr (updates\<lparr> patch_content := Some c, patch_embedding := Some None \<rparr>))"

definition update ::
  "user_identity option \<Rightarrow> int \<Rightarrow> doc_id \<Rightarrow> js_string option \<Rightarrow> js_string option \<Rightarrow>
     kb_state \<Rightarrow> (handler_error + doc_id) \<times> kb_state" where
  "update ident now documentId title_arg content_arg s =
     (case auth_org ident of
        Inl e \<Rightarrow> (Inl e, s)
      | Inr org \<Rightarrow>
          (case db_get s documentId of
             None \<Rightarrow> (Inl (ConvexError NOT_FOUND ''Document not found''), s)
           | Some document \<Rightarrow>
               if organizationId document \<noteq> org
               then (Inl (ConvexError FORBIDDEN ''Access denied''), s)
               else
                 (case update_title title_arg
                         \<lparr> patch_updatedAt = now, patch_title = None,
                           patch_content = None, patch_embedding = None \<rparr> of
                    Inl e \<Rightarrow> (Inl e, s)
                  | Inr updates1 \<Rightarrow>
                      (case update_content content_arg updates1 of
                         Inl e \<Rightarrow> (Inl e, s)
                       | Inr updates \<Rightarrow> (Inr documentId, db_patch documentId updates s)))))"

definition remove ::
  "user_identity option \<Rightarrow> doc_id \<Rightarrow> kb_state \<Rightarrow> (handler_error + bool) \<times> kb_state" where
  "remove ident documentId s =
     (case auth_org ident of
        Inl e \<Rightarrow> (Inl e, s)
      | Inr org \<Rightarrow>
          (case db_get s documentId of
             None \<Rightarrow> (Inl (ConvexError NOT_FOUND ''Document not found''), s)
           | Some document \<Rightarrow>
               if organizationId document \<noteq> org
               then (Inl (ConvexError FORBIDDEN ''Access denied''), s)
               else
                 (case storageId document of
                    Some b \<Rightarrow>
                      (case storage_delete b s of
                         Inl e \<Rightarrow> (Inl e, s)
                       | Inr s1 \<Rightarrow> (Inr True, db_delete documentId s1))
                  | None \<Rightarrow> (Inr True, db_delete documentId s))))"

text \<open>
  A title or content is rejected when \<open>!s.trim()\<close> holds. The predicate below is the
  reading "empty or whitespace-only" of that test; \<open>valid_doc\<close> is the resulting
  property of a stored document.
\<close>

definition whitespace_only :: "js_string \<Rightarrow> bool" where
  "whitespace_only s \<longleftrightarrow> list_all is_white_space s"

definition valid_doc :: "kb_doc \<Rightarrow> bool" where
  "valid_doc d \<longleftrightarrow> \<not> whitespace_only (title d) \<and> \<not> whitespace_only (content d)"

definition all_valid :: "kb_state \<Rightarrow> bool" where
  "all_valid s \<longleftrightarrow> list_all (\<lambda>(i, d). valid_doc d) (db s)"

text \<open>
  The three mutations of the module as requests against the table, and the state a
  sequence of requests leaves behind when run from the empty table.
\<close>

datatype request =
    Create "user_identity option" int create_args
  | Update "user_identity option" int doc_id "js_string option" "js_string option"
  | Remove "user_identity option" doc_id

fun step :: "request \<Rightarrow> kb_state \<Rightarrow> kb_state" where
  "step (Create ident now args) s = snd (create ident now args s)"
| "step (Update ident now documentId title_arg content_arg) s =
     snd (update ident now documentId title_arg content_arg s)"
| "step (Remove ident documentId) s = snd (remove ident documentId s)"

definition empty_state :: kb_state where
  "empty_state = \<lparr> db = [], next_id = 0, storage = {} \<rparr>"

definition run :: "request list \<Rightarrow> kb_state" where
  "run reqs = fold step reqs empty_state"

section \<open>Embedding model adapter (system/ai/rag.ts)\<close>

text \<open>
  The provider model \<open>v1\<close> is used untyped (\<open>as any\<close>): a method is present when
  \<open>typeof\<close> it is \<open>"function"\<close>, and what it resolves to is an arbitrary JavaScript
  value. A provider method either rejects with a message or resolves to a value.
\<close>

datatype js_value = JUndefined | JNumber real | JArray "js_value list" | JOther

definition vec :: "real list \<Rightarrow> js_value" where
  \<comment> \<open>a vector of numbers as a JavaScript array\<close>
  "vec v = JArray (map JNumber v)"

fun is_array :: "js_value \<Rightarrow> bool" where
  "is_array (JArray xs) = True"
| "is_array v = False"

fun first_item :: "js_value list \<Rightarrow> js_value" where
  \<comment> \<open>\<open>xs[0]\<close>, which is \<open>undefined\<close> for the empty array\<close>
  "first_item [] = JUndefined"
| "first_item (x # xs) = x"

record provider =
  v1_embed :: "(js_string \<Rightarrow> string + js_value) option"
  v1_embedMany :: "(js_string list \<Rightarrow> string + js_value) option"

text \<open>
  An error of the adapter is either one it throws itself or one a provider method
  rejected with, which \<open>await\<close> passes on unchanged.
\<close>

datatype embed_error = AdapterError string | ProviderError string

fun promise_all :: "(string + 'a) list \<Rightarrow> string + 'a list" where
  \<comment> \<open>\<open>Promise.all\<close>: the results in the order of the promises when all are fulfilled,
      otherwise a rejection. Which rejection is reported depends on the order in which the
      calls settle; the model reports the first in list order, and the theorems below use
      only that it is the rejection of one of the calls.\<close>
  "promise_all [] = Inr []"
| "promise_all (r # rs) =
     (case r of
        Inl m \<Rightarrow> Inl m
      | Inr x \<Rightarrow> (case promise_all rs of Inl m \<Rightarrow> Inl m | Inr xs \<Rightarrow> Inr (x # xs)))"

definition embed :: "provider \<Rightarrow> js_string \<Rightarrow> embed_error + js_value" where
  "embed v1 input =
     (case v1_embed v1 of
        Some f \<Rightarrow>
          (case f input of
             Inl m \<Rightarrow> Inl (ProviderError m)
           | Inr out \<Rightarrow>
               Inr (case out of
                      JArray xs \<Rightarrow> if is_array (first_item xs) then first_item xs else out
                    | _ \<Rightarrow> out))
      | None \<Rightarrow>
          (case v1_embedMany v1 of
             Some g \<Rightarrow>
               (case g [input] of
                  Inl m \<Rightarrow> Inl (ProviderError m)
                | Inr arr \<Rightarrow> Inr (case arr of JArray xs \<Rightarrow> first_item xs | _ \<Rightarrow> arr))
           | None \<Rightarrow> Inl (AdapterError ''v1 embedding model has no embed/embedMany'')))"

definition embedMany :: "provider \<Rightarrow> js_string list \<Rightarrow> embed_error + js_value" where
  "embedMany v1 inputs =
     (case v1_embedMany v1 of
        Some g \<Rightarrow>
          (case g inputs of Inl m \<Rightarrow> Inl (ProviderError m) | Inr r \<Rightarrow> Inr r)
      | None \<Rightarrow>
          (case v1_embed v1 of
             Some f \<Rightarrow>
               (case promise_all (map f inputs) of
                  Inl m \<Rightarrow> Inl (ProviderError m)
                | Inr outs \<Rightarrow> Inr (JArray outs))
           | None \<Rightarrow> Inl (AdapterError ''v1 embedding model can't embedMany'')))"

definition embeddingDimension :: nat where
  \<comment> \<open>the option given to the RAG component, and the \<open>dimensions\<close> of the index \<open>by_embedding\<close>\<close>
  "embeddingDimension = 3072"

text \<open>
  The second adapter of the repository (specification version v1) hands the values to
  the \<open>embedMany\<close> function of the AI SDK, here the parameter \<open>sdk_embedMany\<close>, and
  returns the \<open>embeddings\<close> of its result.
\<close>

definition doEmbed ::
  "(js_string list \<Rightarrow> string + js_value list) \<Rightarrow> js_string list \<Rightarrow> string + js_value list" where
  "doEmbed sdk_embedMany values_arg =
     (case sdk_embedMany values_arg of Inl m \<Rightarrow> Inl m | Inr embeddings \<Rightarrow> Inr embeddings)"

section \<open>Vector search and retrieval, from the specification\<close>

text \<open>
  Modelled from the spec: the search of the vector index, \<open>search(tenant_id,
  query_vector, k)\<close> of section 4.3. The module private/rag.ts that issues the search is
  not among the sources; schema.ts only declares the index \<open>by_embedding\<close> on the field
  \<open>embedding\<close> with the filter field \<open>organizationId\<close>. The search returns at most \<open>k\<close>
  pairs of document id and similarity score, best score first, restricted to the
  vectors of \<open>tenant_id\<close>; a document without an embedding has no vector in the index.
  The similarity measure is a parameter.
\<close>

definition by_score :: "'a \<times> real \<Rightarrow> 'a \<times> real \<Rightarrow> int" where
  "by_score a b = (if snd b < snd a then - 1 else if snd a < snd b then 1 else 0)"

definition vector_search ::
  "(real list \<Rightarrow> real list \<Rightarrow> real) \<Rightarrow> kb_state \<Rightarrow> js_string \<Rightarrow> real list \<Rightarrow> nat \<Rightarrow>
     (doc_id \<times> real) list" where
  "vector_search similarity s tenant_id query_vector k =
     take k (js_sort by_score
       (concat (map (\<lambda>(i, d).
          case embedding d of
            None \<Rightarrow> []
          | Some e \<Rightarrow> if organizationId d = tenant_id then [(i, similarity query_vector e)] else [])
        (db s))))"

text \<open>
  Modelled from the spec: the approximate token count of section 4.4, step 5
  ("characters/4"), which private/rag.ts would implement.
\<close>

definition approx_tokens :: "js_string \<Rightarrow> nat" where
  "approx_tokens s = length s div 4"

text \<open>
  Modelled from the spec: step 5 of \<open>retrieve\<close> (section 4.4), the greedy accumulation
  of the ranked candidates into the context buffer; the function of private/rag.ts
  (\<open>getContextForQuery\<close>) is not among the sources. The running token count is the
  approximate token count of the buffer, delimiters included. A candidate is added whole
  while the buffer stays within \<open>max_tokens\<close>. The first candidate that would exceed
  the budget is truncated to the characters that still fit, and added when what is left
  is not empty and has at least \<open>min_chars\<close> characters (the minimum character floor);
  accumulation stops there. The sources list the documents added, in that order.
\<close>

fun accumulate ::
  "nat \<Rightarrow> nat \<Rightarrow> js_string \<Rightarrow> (doc_id \<times> kb_doc) list \<Rightarrow> js_string \<Rightarrow> (doc_id \<times> js_string) list \<Rightarrow>
     js_string \<times> (doc_id \<times> js_string) list" where
  "accumulate max_tokens min_chars delimiter [] buf srcs = (buf, srcs)"
| "accumulate max_tokens min_chars delimiter ((i, d) # rest) buf srcs =
     (let sep = (if buf = [] then [] else delimiter) in
      if approx_tokens (buf @ sep @ content d) \<le> max_tokens
      then accumulate max_tokens min_chars delimiter rest
             (buf @ sep @ content d) (srcs @ [(i, title d)])
      else
        (let room = 4 * (max_tokens - approx_tokens buf) - length sep;
             piece = take room (content d)
         in if piece \<noteq> [] \<and> min_chars \<le> length piece
            then (buf @ sep @ piece, srcs @ [(i, title d)])
            else (buf, srcs)))"

text \<open>
  Modelled from the spec: the ranking of step 4, by similarity score, descending, ties
  broken by the most recent \<open>createdAt\<close>.
\<close>

definition by_rank :: "(doc_id \<times> kb_doc) \<times> real \<Rightarrow> (doc_id \<times> kb_doc) \<times> real \<Rightarrow> int" where
  "by_rank a b =
     (if snd b < snd a then - 1 else if snd a < snd b then 1
      else createdAt (snd (fst b)) - createdAt (snd (fst a)))"

datatype retrieve_error = QueryEmbeddingFailed

record retrieved =
  context_text :: js_string
  sources :: "(doc_id \<times> js_string) list"

text \<open>
  Modelled from the spec: \<open>retrieve(tenant_id, query_text, max_tokens, max_candidates)\<close>
  of section 4.4, steps 1 to 6; private/rag.ts (\<open>getContextForQuery\<close>) is not among the
  sources. The adapter call \<open>embed_one\<close> and the index call \<open>search\<close> are parameters, as
  are the delimiter between sources and the minimum character floor. A hit whose id no
  longer resolves to a document is dropped.
\<close>

definition retrieve ::
  "(js_string \<Rightarrow> embed_error + real list) \<Rightarrow> (js_string \<Rightarrow> real list \<Rightarrow> nat \<Rightarrow> (doc_id \<times> real) list) \<Rightarrow>
     nat \<Rightarrow> js_string \<Rightarrow> kb_state \<Rightarrow> js_string \<Rightarrow> js_string \<Rightarrow> nat \<Rightarrow> nat \<Rightarrow>
     retrieve_error + retrieved" where
  "retrieve embed_one search min_chars delimiter s tenant_id query_text max_tokens max_candidates =
     (case embed_one query_text of
        Inl e \<Rightarrow> Inl QueryEmbeddingFailed
      | Inr query_vector \<Rightarrow>
          (let hits = search tenant_id query_vector max_candidates;
               live = concat (map (\<lambda>(i, score).
                        case db_get s i of None \<Rightarrow> [] | Some d \<Rightarrow> [((i, d), score)]) hits);
               ranked = map fst (js_sort by_rank live);
               (buf, srcs) = accumulate max_tokens min_chars delimiter ranked [] []
           in Inr \<lparr> context_text = buf, sources = srcs \<rparr>))"

section \<open>Example data\<close>

definition acme :: js_string where
  "acme = js ''acme''"

definition globex :: js_string where
  "globex = js ''globex''"

definition doc_refunds :: kb_doc where
  "doc_refunds =
     \<lparr> organizationId = acme, title = js ''Refunds'', content = js ''Refunds take 5 days'',
       mimeType = js ''text/plain'', fileName = js ''refunds.txt'', embedUrl = None,
       storageId = Some 7, embedding = Some [1/2, 1/4], createdAt = 1000,
       updatedAt = None \<rparr>"

definition doc_shipping :: kb_doc where
  "doc_shipping =
     \<lparr> organizationId = globex, title = js ''Shipping'',
       content = js ''Shipping is free over 50'', mimeType = js ''text/plain'',
       fileName = js ''shipping.txt'', embedUrl = None, storageId = None,
       embedding = Some [1/4, 3/4], createdAt = 2000, updatedAt = None \<rparr>"

definition state0 :: kb_state where
  "state0 = \<lparr> db = [(1, doc_refunds), (2, doc_shipping)], next_id = 3, storage = {7} \<rparr>"

definition alice :: "user_identity option" where
  \<comment> \<open>a caller signed in to the organization \<open>acme\<close>\<close>
  "alice = Some \<lparr> orgId = Some acme \<rparr>"

section \<open>Auxiliary facts\<close>

lemma map_of_patch:
  "map_of (map (\<lambda>(j, d). if j = i then (j, f d) else (j, d)) xs) k =
     (if k = i then map_option f (map_of xs i) else map_of xs k)"
  by (induction xs) auto

lemma db_get_patch:
  "db_get (db_patch i u s) k =
     (if k = i then map_option (apply_patch u) (db_get s i) else db_get s k)"
  by (simp add: db_get_def db_patch_def map_of_patch)

lemma auth_org_not_falsy: "auth_org ident = Inr org \<Longrightarrow> org \<noteq> []"
  by (auto simp: auth_org_def falsy_def split: option.splits if_splits)

lemma update_success_D:
  assumes "update ident now documentId title_arg content_arg s = (Inr r, s')"
  shows "\<exists>document updates1 updates.
    auth_org ident = Inr (organizationId document) \<and> db_get s documentId = Some document \<and>
    update_title title_arg \<lparr> patch_updatedAt = now, patch_title = None,
                           patch_content = None, patch_embedding = None \<rparr> = Inr updates1 \<and>
    update_content content_arg updates1 = Inr updates \<and>
    s' = db_patch documentId updates s \<and> r = documentId"
  using assms by (fastforce simp: update_def split: sum.splits option.splits if_splits)

lemma update_failure_state:
  "update ident now documentId title_arg content_arg s = (Inl e, s') \<Longrightarrow> s' = s"
  by (auto simp: update_def split: sum.splits option.splits if_splits)

lemma trim_empty_iff: "trim s = [] \<longleftrightarrow> whitespace_only s"
proof
  assume "trim s = []"
  then have "\<forall>x \<in> set (dropWhile is_white_space s). is_white_space x"
    by (simp add: trim_def)
  then have "dropWhile is_white_space s = []"
    by (metis hd_dropWhile hd_in_set)
  then show "whitespace_only s"
    by (simp add: whitespace_only_def list_all_iff)
next
  assume "whitespace_only s"
  then have "dropWhile is_white_space s = []"
    by (simp add: whitespace_only_def list_all_iff)
  then show "trim s = []"
    by (auto simp: trim_def dest: set_dropWhileD)
qed

lemma falsy_trim: "falsy (trim s) \<longleftrightarrow> whitespace_only s"
  by (simp add: falsy_def trim_empty_iff)

lemma create_failure_state: "create ident now args s = (Inl e, s') \<Longrightarrow> s' = s"
  by (auto simp: create_def db_insert_def Let_def split: sum.splits if_splits)

lemma remove_failure_state: "remove ident documentId s = (Inl e, s') \<Longrightarrow> s' = s"
  by (auto simp: remove_def split: sum.splits option.splits if_splits)

lemma map_of_delete:
  "map_of (filter (\<lambda>(j, d). j \<noteq> i) xs) k = (if k = i then None else map_of xs k)"
  by (induction xs) auto

lemma db_get_delete:
  "db_get (db_delete i s) k = (if k = i then None else db_get s k)"
  by (simp add: db_get_def db_delete_def map_of_delete)

lemma db_get_storage_delete: "storage_delete b s = Inr s1 \<Longrightarrow> db_get s1 k = db_get s k"
  by (auto simp: db_get_def storage_delete_def split: if_splits)

lemma set_insert_by: "set (insert_by cmp x xs) = insert x (set xs)"
  by (induction xs) auto

lemma set_js_sort: "set (js_sort cmp xs) = set xs"
  by (induction xs) (auto simp: set_insert_by)

lemma mset_insert_by: "mset (insert_by cmp x xs) = add_mset x (mset xs)"
  by (induction xs) auto

lemma mset_js_sort: "mset (js_sort cmp xs) = mset xs"
  by (induction xs) (auto simp: mset_insert_by)

lemma vector_search_tenant:
  assumes "(i, score) \<in> set (vector_search similarity s tenant_id query_vector k)"
  shows "\<exists>d. (i, d) \<in> set (db s) \<and> organizationId d = tenant_id \<and> embedding d \<noteq> None"
proof -
  let ?entries = "concat (map (\<lambda>(i, d).
          case embedding d of
            None \<Rightarrow> []
          | Some e \<Rightarrow> if organizationId d = tenant_id then [(i, similarity query_vector e)] else [])
        (db s))"
  from assms have "(i, score) \<in> set (js_sort by_score ?entries)"
    unfolding vector_search_def by (rule in_set_takeD)
  then have "(i, score) \<in> set ?entries"
    by (simp only: set_js_sort)
  then obtain d e where "(i, d) \<in> set (db s)" "organizationId d = tenant_id" "Some e = embedding d"
    by (auto split: option.splits if_splits)
  then show ?thesis by (metis option.distinct(1))
qed

section \<open>Example evaluations\<close>

lemma state0_update:
  "update alice 5000 1 None (Some (js ''New text'')) state0 =
    (Inr 1, state0\<lparr> db := [(1, doc_refunds\<lparr> updatedAt := Some 5000, content := js ''New text'', embedding := None \<rparr>), (2, doc_shipping)] \<rparr>)"
  by (simp add: update_def alice_def auth_org_def falsy_def acme_def js_def state0_def db_get_def
      doc_refunds_def update_title_def update_content_def trim_def is_white_space_def db_patch_def apply_patch_def)

lemma state0_rename:
  "update alice 5000 1 (Some (js ''Returns'')) None state0 =
    (Inr 1, state0\<lparr> db := [(1, doc_refunds\<lparr> updatedAt := Some 5000, title := js ''Returns'' \<rparr>), (2, doc_shipping)] \<rparr>)"
  by (simp add: update_def alice_def auth_org_def falsy_def acme_def js_def state0_def db_get_def
      doc_refunds_def update_title_def update_content_def trim_def is_white_space_def db_patch_def apply_patch_def)

lemma state0_search: "vector_search (\<lambda>q e. 1) state0 acme [1, 0] 5 = [(1, 1)]"
  by (simp add: doc_refunds_def doc_shipping_def state0_def vector_search_def by_score_def
      acme_def globex_def js_def)

lemma state0_search_after_update:
  "vector_search (\<lambda>q e. 1) (state0\<lparr> db := [(1, doc_refunds\<lparr> updatedAt := Some 5000,
        content := js ''New text'', embedding := None \<rparr>), (2, doc_shipping)] \<rparr>) acme [1, 0] 5 = []"
  by (simp add: doc_refunds_def doc_shipping_def vector_search_def by_score_def
      acme_def globex_def js_def)

section \<open>Updating a document\<close>

text \<open>
  Claim C1. Whenever \<open>update\<close> is called with a content and completes, the document
  holds the new content and its embedding field is cleared: every row of the table
  with that id has the new content and no embedding, so no vector search finds the
  document. The mutation is one transition of the state, so no state holds the new
  content together with the old embedding.
\<close>

theorem update_content_clears_embedding:
  assumes "update ident now documentId title_arg (Some c) s = (Inr r, s')"
  shows "(\<exists>d'. db_get s' documentId = Some d' \<and> content d' = c \<and> embedding d' = None) \<and>
         (\<forall>(j, d') \<in> set (db s'). j = documentId \<longrightarrow> content d' = c \<and> embedding d' = None) \<and>
         (\<forall>similarity tenant_id query_vector k.
            documentId \<notin> fst ` set (vector_search similarity s' tenant_id query_vector k))"
proof -
  from update_success_D [OF assms] obtain document updates1 updates where
    doc: "db_get s documentId = Some document" and
    u2: "update_content (Some c) updates1 = Inr updates" and
    s': "s' = db_patch documentId updates s"
    by blast
  from u2 have pc: "patch_content updates = Some c" and pe: "patch_embedding updates = Some None"
    by (auto simp: update_content_def split: if_splits)
  have 1: "\<exists>d'. db_get s' documentId = Some d' \<and> content d' = c \<and> embedding d' = None"
    using doc pc pe by (simp add: s' db_get_patch apply_patch_def)
  have 2: "\<forall>(j, d') \<in> set (db s'). j = documentId \<longrightarrow> content d' = c \<and> embedding d' = None"
    using pc pe by (auto simp: s' db_patch_def apply_patch_def split: if_splits)
  have 3: "documentId \<notin> fst ` set (vector_search similarity s' tenant_id query_vector k)"
    for similarity tenant_id query_vector k
  proof
    assume "documentId \<in> fst ` set (vector_search similarity s' tenant_id query_vector k)"
    then obtain score where
      "(documentId, score) \<in> set (vector_search similarity s' tenant_id query_vector k)"
      by auto
    from vector_search_tenant [OF this] obtain d' where
      "(documentId, d') \<in> set (db s')" and "embedding d' \<noteq> None"
      by blast
    with 2 show False by auto
  qed
  from 1 2 show ?thesis using 3 by simp
qed

theorem update_content_clears_embedding_witness:
  "update alice 5000 1 None (Some (js ''New text'')) state0 =
     (Inr 1, state0\<lparr> db := [(1, doc_refunds\<lparr> updatedAt := Some 5000,
        content := js ''New text'', embedding := None \<rparr>), (2, doc_shipping)] \<rparr>) \<and>
   embedding doc_refunds = Some [1/2, 1/4] \<and>
   (\<exists>d'. db_get (state0\<lparr> db := [(1, doc_refunds\<lparr> updatedAt := Some 5000,
        content := js ''New text'', embedding := None \<rparr>), (2, doc_shipping)] \<rparr>) 1 = Some d' \<and>
      content d' = js ''New text'' \<and> embedding d' = None) \<and>
   vector_search (\<lambda>q e. 1) state0 acme [1, 0] 5 = [(1, 1)] \<and>
   vector_search (\<lambda>q e. 1) (state0\<lparr> db := [(1, doc_refunds\<lparr> updatedAt := Some 5000,
        content := js ''New text'', embedding := None \<rparr>), (2, doc_shipping)] \<rparr>) acme [1, 0] 5 = []"
  using update_content_clears_embedding [OF state0_update] state0_update state0_search
    state0_search_after_update
  by (simp add: doc_refunds_def)

text \<open>
  Claim C10. A successful \<open>update\<close> leaves \<open>organizationId\<close>, \<open>mimeType\<close>,
  \<open>fileName\<close>, \<open>embedUrl\<close>, \<open>storageId\<close> and \<open>createdAt\<close> of the target document
  as they were; without a content argument it leaves \<open>content\<close> and \<open>embedding\<close> as
  they were, and without a title argument the title. No other document, the ids of the
  table, the id counter and file storage change.
\<close>

theorem update_frame:
  assumes "update ident now documentId title_arg content_arg s = (Inr r, s')"
  shows "(\<exists>d d'. db_get s documentId = Some d \<and> db_get s' documentId = Some d' \<and>
            organizationId d' = organizationId d \<and> mimeType d' = mimeType d \<and>
            fileName d' = fileName d \<and> embedUrl d' = embedUrl d \<and>
            storageId d' = storageId d \<and> createdAt d' = createdAt d \<and>
            (content_arg = None \<longrightarrow> content d' = content d \<and> embedding d' = embedding d) \<and>
            (title_arg = None \<longrightarrow> title d' = title d)) \<and>
         (\<forall>k. k \<noteq> documentId \<longrightarrow> db_get s' k = db_get s k) \<and>
         map fst (db s') = map fst (db s) \<and> next_id s' = next_id s \<and> storage s' = storage s"
proof -
  from update_success_D [OF assms] obtain document updates1 updates where
    doc: "db_get s documentId = Some document" and
    u1: "update_title title_arg \<lparr> patch_updatedAt = now, patch_title = None,
                           patch_content = None, patch_embedding = None \<rparr> = Inr updates1" and
    u2: "update_content content_arg updates1 = Inr updates" and
    s': "s' = db_patch documentId updates s"
    by blast
  have t: "title_arg = None \<Longrightarrow> patch_title updates = None"
    using u1 u2 by (auto simp: update_title_def update_content_def split: option.splits if_splits)
  have c: "content_arg = None \<Longrightarrow> patch_content updates = None \<and> patch_embedding updates = None"
    using u1 u2 by (auto simp: update_title_def update_content_def split: option.splits if_splits)
  have 1: "db_get s' documentId = Some (apply_patch updates document)"
    using doc by (simp add: s' db_get_patch)
  have 2: "\<forall>k. k \<noteq> documentId \<longrightarrow> db_get s' k = db_get s k"
    by (simp add: s' db_get_patch)
  have 3: "map fst (db s') = map fst (db s)"
    by (auto simp: s' db_patch_def)
  have 4: "next_id s' = next_id s \<and> storage s' = storage s"
    by (simp add: s' db_patch_def)
  show ?thesis
    using doc 1 2 3 4 t c by (auto simp: apply_patch_def)
qed

theorem update_frame_witness:
  "update alice 5000 1 (Some (js ''Returns'')) None state0 =
     (Inr 1, state0\<lparr> db := [(1, doc_refunds\<lparr> updatedAt := Some 5000,
        title := js ''Returns'' \<rparr>), (2, doc_shipping)] \<rparr>) \<and>
   (\<exists>d d'. db_get state0 1 = Some d \<and>
      db_get (state0\<lparr> db := [(1, doc_refunds\<lparr> updatedAt := Some 5000,
        title := js ''Returns'' \<rparr>), (2, doc_shipping)] \<rparr>) 1 = Some d' \<and>
      organizationId d' = organizationId d \<and> mimeType d' = mimeType d \<and>
      fileName d' = fileName d \<and> embedUrl d' = embedUrl d \<and>
      storageId d' = storageId d \<and> createdAt d' = createdAt d \<and>
      content d' = content d \<and> embedding d' = embedding d)"
  using update_frame [OF state0_rename] state0_rename
  by simp

section \<open>Rejected titles and contents\<close>

lemma create_blank:
  assumes "whitespace_only (arg_title args) \<or> whitespace_only (arg_content args)"
  shows "\<exists>e. create ident now args s = (Inl e, s)"
    and "auth_org ident = Inr org \<Longrightarrow> \<exists>m. create ident now args s = (Inl (ConvexError BAD_REQUEST m), s)"
  using assms by (auto simp: create_def falsy_trim split: sum.splits)

lemma update_blank:
  assumes "(\<exists>t. title_arg = Some t \<and> whitespace_only t) \<or> (\<exists>c. content_arg = Some c \<and> whitespace_only c)"
  shows "\<exists>e. update ident now documentId title_arg content_arg s = (Inl e, s)"
    and "auth_org ident = Inr (organizationId d) \<Longrightarrow> db_get s documentId = Some d \<Longrightarrow>
         \<exists>m. update ident now documentId title_arg content_arg s = (Inl (ConvexError BAD_REQUEST m), s)"
  using assms
  by (auto simp: update_def update_title_def update_content_def falsy_trim
      split: sum.splits option.splits)

lemma create_valid: "all_valid s \<Longrightarrow> all_valid (snd (create ident now args s))"
  by (auto simp: create_def db_insert_def all_valid_def valid_doc_def falsy_trim list_all_iff
      split: sum.splits)

lemma apply_patch_valid:
  assumes "valid_doc d"
    and "\<forall>t. patch_title u = Some t \<longrightarrow> \<not> whitespace_only t"
    and "\<forall>c. patch_content u = Some c \<longrightarrow> \<not> whitespace_only c"
  shows "valid_doc (apply_patch u d)"
  using assms by (auto simp: valid_doc_def apply_patch_def split: option.splits)

lemma update_valid:
  assumes "all_valid s"
  shows "all_valid (snd (update ident now documentId title_arg content_arg s))"
proof (cases "update ident now documentId title_arg content_arg s")
  case (Pair r s')
  show ?thesis
  proof (cases r)
    case (Inl e)
    with Pair have "s' = s" by (simp add: update_failure_state)
    with Pair assms show ?thesis by simp
  next
    case (Inr i)
    with Pair have "update ident now documentId title_arg content_arg s = (Inr i, s')"
      by simp
    from update_success_D [OF this] obtain updates1 updates where
      u1: "update_title title_arg \<lparr> patch_updatedAt = now, patch_title = None,
                           patch_content = None, patch_embedding = None \<rparr> = Inr updates1" and
      u2: "update_content content_arg updates1 = Inr updates" and
      s': "s' = db_patch documentId updates s"
      by blast
    have t: "\<forall>t. patch_title updates = Some t \<longrightarrow> \<not> whitespace_only t"
      using u1 u2
      by (auto simp: update_title_def update_content_def falsy_trim split: option.splits if_splits)
    have c: "\<forall>c. patch_content updates = Some c \<longrightarrow> \<not> whitespace_only c"
      using u1 u2
      by (auto simp: update_title_def update_content_def falsy_trim split: option.splits if_splits)
    have "all_valid s'"
      using assms apply_patch_valid [OF _ t c]
      by (auto simp: s' db_patch_def all_valid_def list_all_iff split: if_splits)
    with Pair show ?thesis by simp
  qed
qed

lemma remove_valid: "all_valid s \<Longrightarrow> all_valid (snd (remove ident documentId s))"
  by (auto simp: remove_def db_delete_def storage_delete_def all_valid_def list_all_iff
      split: sum.splits option.splits if_splits)

lemma step_valid: "all_valid s \<Longrightarrow> all_valid (step req s)"
  by (cases req) (simp_all add: create_valid update_valid remove_valid)

lemma fold_step_valid: "all_valid s \<Longrightarrow> all_valid (fold step reqs s)"
  by (induction reqs arbitrary: s) (simp_all add: step_valid)

lemma run_valid: "all_valid (run reqs)"
proof -
  have "all_valid empty_state" by (simp add: all_valid_def empty_state_def)
  then show ?thesis unfolding run_def by (rule fold_step_valid)
qed

text \<open>
  Claim C7. \<open>create\<close> and \<open>update\<close> reject a title or content that is empty or
  whitespace-only: the call fails and leaves the state as it was, and for a caller that
  passed the checks before the validation (signed in to an organization; for \<open>update\<close>
  also the owner of an existing document) the error is \<open>BAD_REQUEST\<close>. Hence every
  mutation keeps the titles and contents of the table neither empty nor whitespace-only,
  and so does every sequence of mutations run from the empty table.
\<close>

theorem blank_title_or_content_rejected:
  "(whitespace_only (arg_title args) \<or> whitespace_only (arg_content args) \<longrightarrow>
      (\<exists>e. create ident now args s = (Inl e, s)) \<and>
      (\<forall>org. auth_org ident = Inr org \<longrightarrow>
         (\<exists>m. create ident now args s = (Inl (ConvexError BAD_REQUEST m), s)))) \<and>
   ((\<exists>t. title_arg = Some t \<and> whitespace_only t) \<or>
    (\<exists>c. content_arg = Some c \<and> whitespace_only c) \<longrightarrow>
      (\<exists>e. update ident now documentId title_arg content_arg s = (Inl e, s)) \<and>
      (\<forall>d. auth_org ident = Inr (organizationId d) \<and> db_get s documentId = Some d \<longrightarrow>
         (\<exists>m. update ident now documentId title_arg content_arg s =
                (Inl (ConvexError BAD_REQUEST m), s)))) \<and>
   (all_valid s \<longrightarrow> all_valid (step req s)) \<and>
   all_valid (run reqs)"
  using create_blank [where args = args and ident = ident and now = now and s = s] update_blank [where title_arg = title_arg and content_arg = content_arg and ident = ident and now = now and documentId = documentId and s = s]
    step_valid [of s req] run_valid [of reqs]
  by blast

theorem blank_title_or_content_rejected_witness:
  "create alice 5000
     \<lparr> arg_title = js ''  '', arg_content = js ''Opening hours'', arg_mimeType = js ''text/plain'',
       arg_fileName = js ''hours.txt'', arg_embedUrl = None, arg_storageId = None \<rparr> state0 =
     (Inl (ConvexError BAD_REQUEST ''Title cannot be empty''), state0) \<and>
   update alice 5000 1 None (Some [0x0A, 0x09]) state0 =
     (Inl (ConvexError BAD_REQUEST ''Content cannot be empty''), state0) \<and>
   all_valid (run [Create alice 5000
     \<lparr> arg_title = js ''Hours'', arg_content = js ''Opening hours'', arg_mimeType = js ''text/plain'',
       arg_fileName = js ''hours.txt'', arg_embedUrl = None, arg_storageId = None \<rparr>,
     Update alice 6000 0 (Some []) None])"
  using blank_title_or_content_rejected
    [where args = "\<lparr> arg_title = js ''  '', arg_content = js ''Opening hours'',
        arg_mimeType = js ''text/plain'', arg_fileName = js ''hours.txt'', arg_embedUrl = None,
        arg_storageId = None \<rparr>"
      and ident = alice and now = 5000 and s = state0 and title_arg = None
      and content_arg = "Some [0x0A, 0x09]" and documentId = 1
      and reqs = "[Create alice 5000
         \<lparr> arg_title = js ''Hours'', arg_content = js ''Opening hours'', arg_mimeType = js ''text/plain'',
           arg_fileName = js ''hours.txt'', arg_embedUrl = None, arg_storageId = None \<rparr>,
         Update alice 6000 0 (Some []) None]"]
  by (simp add: create_def update_def alice_def auth_org_def falsy_def acme_def js_def state0_def
      db_get_def doc_refunds_def update_title_def update_content_def trim_def is_white_space_def)

section \<open>Removing a document\<close>





section \<open>Tenant isolation\<close>

lemma getOne_success:
  "getOne ident documentId s = Inr d \<Longrightarrow>
     db_get s documentId = Some d \<and> auth_org ident = Inr (organizationId d)"
  by (auto simp: getOne_def split: sum.splits option.splits if_splits)

lemma auth_org_error:
  "auth_org ident = Inl e \<Longrightarrow> \<exists>m. e = ConvexError UNAUTHORIZED m"
  by (auto simp: auth_org_def split: option.splits if_splits)

lemma foreign_denied:
  assumes "db_get s documentId = Some d" and "auth_org ident \<noteq> Inr (organizationId d)"
  shows "\<exists>c m. getOne ident documentId s = Inl (ConvexError c m) \<and> c \<in> {UNAUTHORIZED, FORBIDDEN}"
    and "\<exists>c m. update ident now documentId title_arg content_arg s = (Inl (ConvexError c m), s) \<and>
           c \<in> {UNAUTHORIZED, FORBIDDEN}"
    and "\<exists>c m. remove ident documentId s = (Inl (ConvexError c m), s) \<and>
           c \<in> {UNAUTHORIZED, FORBIDDEN}"
proof -
  show "\<exists>c m. getOne ident documentId s = Inl (ConvexError c m) \<and> c \<in> {UNAUTHORIZED, FORBIDDEN}"
  proof (cases "auth_org ident")
    case (Inl e)
    with auth_org_error show ?thesis by (fastforce simp: getOne_def)
  next
    case (Inr org)
    with assms show ?thesis by (simp add: getOne_def)
  qed
  show "\<exists>c m. update ident now documentId title_arg content_arg s = (Inl (ConvexError c m), s) \<and>
           c \<in> {UNAUTHORIZED, FORBIDDEN}"
  proof (cases "auth_org ident")
    case (Inl e)
    with auth_org_error show ?thesis by (fastforce simp: update_def)
  next
    case (Inr org)
    with assms show ?thesis by (simp add: update_def)
  qed
  show "\<exists>c m. remove ident documentId s = (Inl (ConvexError c m), s) \<and>
           c \<in> {UNAUTHORIZED, FORBIDDEN}"
  proof (cases "auth_org ident")
    case (Inl e)
    with auth_org_error show ?thesis by (fastforce simp: remove_def)
  next
    case (Inr org)
    with assms show ?thesis by (simp add: remove_def)
  qed
qed

lemma foreign_forbidden:
  assumes "db_get s documentId = Some d" and "auth_org ident = Inr org"
    and "organizationId d \<noteq> org"
  shows "getOne ident documentId s = Inl (ConvexError FORBIDDEN ''Access denied'')"
    and "update ident now documentId title_arg content_arg s =
           (Inl (ConvexError FORBIDDEN ''Access denied''), s)"
    and "remove ident documentId s = (Inl (ConvexError FORBIDDEN ''Access denied''), s)"
  using assms by (simp_all add: getOne_def update_def remove_def)

lemma update_foreign_untouched:
  assumes "db_get s k = Some d" and "auth_org ident \<noteq> Inr (organizationId d)"
  shows "db_get (snd (update ident now documentId title_arg content_arg s)) k = Some d"
proof (cases "update ident now documentId title_arg content_arg s")
  case (Pair r s')
  show ?thesis
  proof (cases r)
    case (Inl e)
    with Pair have "s' = s" by (simp add: update_failure_state)
    with Pair assms show ?thesis by simp
  next
    case (Inr i)
    with Pair have "update ident now documentId title_arg content_arg s = (Inr i, s')"
      by simp
    from update_success_D [OF this] obtain document updates where
      a: "auth_org ident = Inr (organizationId document)" and
      g: "db_get s documentId = Some document" and
      s': "s' = db_patch documentId updates s"
      by blast
    from a g assms have "k \<noteq> documentId" by auto
    with assms Pair show ?thesis by (simp add: s' db_get_patch)
  qed
qed

lemma remove_foreign_untouched:
  assumes "db_get s k = Some d" and "auth_org ident \<noteq> Inr (organizationId d)"
  shows "db_get (snd (remove ident documentId s)) k = Some d"
proof (cases "auth_org ident")
  case (Inl e)
  with assms show ?thesis by (simp add: remove_def)
next
  case (Inr org)
  show ?thesis
  proof (cases "db_get s documentId")
    case None
    with Inr assms show ?thesis by (simp add: remove_def)
  next
    case (Some document)
    show ?thesis
    proof (cases "organizationId document = org")
      case False
      with Inr Some assms show ?thesis by (simp add: remove_def)
    next
      case True
      with Inr Some assms have "k \<noteq> documentId" by auto
      with Inr Some True assms show ?thesis
        by (auto simp: remove_def db_get_delete db_get_storage_delete
            split: option.splits sum.splits)
    qed
  qed
qed

lemma create_untouched:
  assumes "db_get s k = Some d"
  shows "db_get (snd (create ident now args s)) k = Some d"
  using assms
  by (auto simp: create_def db_insert_def db_get_def split: sum.splits)

text \<open>
  Claim C2. When the organization of a document is not the caller's, \<open>getOne\<close>,
  \<open>update\<close> and \<open>remove\<close> fail with an access error and leave the state as it was:
  \<open>FORBIDDEN\<close>, "Access denied", for a caller signed in to another organization, and
  \<open>UNAUTHORIZED\<close> for a caller without identity or organization. \<open>getOne\<close> only ever
  returns a document of the caller's organization, no mutation changes a document of
  another organization, and every hit of the vector search belongs to the tenant searched
  for and has an embedding.
\<close>

theorem tenant_isolation:
  "(db_get s documentId = Some d \<and> auth_org ident \<noteq> Inr (organizationId d) \<longrightarrow>
      (\<exists>c m. getOne ident documentId s = Inl (ConvexError c m) \<and> c \<in> {UNAUTHORIZED, FORBIDDEN}) \<and>
      (\<exists>c m. update ident now documentId title_arg content_arg s = (Inl (ConvexError c m), s) \<and>
         c \<in> {UNAUTHORIZED, FORBIDDEN}) \<and>
      (\<exists>c m. remove ident documentId s = (Inl (ConvexError c m), s) \<and>
         c \<in> {UNAUTHORIZED, FORBIDDEN}) \<and>
      (\<forall>org. auth_org ident = Inr org \<longrightarrow>
         getOne ident documentId s = Inl (ConvexError FORBIDDEN ''Access denied'') \<and>
         update ident now documentId title_arg content_arg s =
           (Inl (ConvexError FORBIDDEN ''Access denied''), s) \<and>
         remove ident documentId s = (Inl (ConvexError FORBIDDEN ''Access denied''), s))) \<and>
   (\<forall>d'. getOne ident documentId s = Inr d' \<longrightarrow> auth_org ident = Inr (organizationId d')) \<and>
   (\<forall>j d'. db_get s j = Some d' \<and> auth_org ident \<noteq> Inr (organizationId d') \<longrightarrow>
      db_get (snd (update ident now documentId title_arg content_arg s)) j = Some d' \<and>
      db_get (snd (remove ident documentId s)) j = Some d' \<and>
      db_get (snd (create ident now args s)) j = Some d') \<and>
   (\<forall>(i, score) \<in> set (vector_search similarity s tenant_id query_vector limit).
      \<exists>d'. (i, d') \<in> set (db s) \<and> organizationId d' = tenant_id \<and> embedding d' \<noteq> None)"
proof -
  have 1: "db_get s documentId = Some d \<and> auth_org ident \<noteq> Inr (organizationId d) \<longrightarrow>
      (\<exists>c m. getOne ident documentId s = Inl (ConvexError c m) \<and> c \<in> {UNAUTHORIZED, FORBIDDEN}) \<and>
      (\<exists>c m. update ident now documentId title_arg content_arg s = (Inl (ConvexError c m), s) \<and>
         c \<in> {UNAUTHORIZED, FORBIDDEN}) \<and>
      (\<exists>c m. remove ident documentId s = (Inl (ConvexError c m), s) \<and>
         c \<in> {UNAUTHORIZED, FORBIDDEN})"
    using foreign_denied [of s documentId d ident] by blast
  have 2: "db_get s documentId = Some d \<and> auth_org ident \<noteq> Inr (organizationId d) \<longrightarrow>
      (\<forall>org. auth_org ident = Inr org \<longrightarrow>
         getOne ident documentId s = Inl (ConvexError FORBIDDEN ''Access denied'') \<and>
         update ident now documentId title_arg content_arg s =
           (Inl (ConvexError FORBIDDEN ''Access denied''), s) \<and>
         remove ident documentId s = (Inl (ConvexError FORBIDDEN ''Access denied''), s))"
    using foreign_forbidden [of s documentId d ident] by auto
  have 3: "\<forall>d'. getOne ident documentId s = Inr d' \<longrightarrow> auth_org ident = Inr (organizationId d')"
    using getOne_success by blast
  have 4: "\<forall>j d'. db_get s j = Some d' \<and> auth_org ident \<noteq> Inr (organizationId d') \<longrightarrow>
      db_get (snd (update ident now documentId title_arg content_arg s)) j = Some d' \<and>
      db_get (snd (remove ident documentId s)) j = Some d' \<and>
      db_get (snd (create ident now args s)) j = Some d'"
    using update_foreign_untouched remove_foreign_untouched create_untouched by blast
  have 5: "\<forall>(i, score) \<in> set (vector_search similarity s tenant_id query_vector limit).
      \<exists>d'. (i, d') \<in> set (db s) \<and> organizationId d' = tenant_id \<and> embedding d' \<noteq> None"
    using vector_search_tenant by fast
  from 1 2 3 4 5 show ?thesis by blast
qed

theorem tenant_isolation_witness:
  "db_get state0 2 = Some doc_shipping \<and>
   auth_org alice = Inr acme \<and> organizationId doc_shipping = globex \<and> acme \<noteq> globex \<and>
   getOne alice 2 state0 = Inl (ConvexError FORBIDDEN ''Access denied'') \<and>
   update alice 5000 2 (Some (js ''Mine'')) None state0 =
     (Inl (ConvexError FORBIDDEN ''Access denied''), state0) \<and>
   remove alice 2 state0 = (Inl (ConvexError FORBIDDEN ''Access denied''), state0) \<and>
   vector_search (\<lambda>q e. 1) state0 acme [1, 0] 5 = [(1, 1)]"
  using tenant_isolation [where s = state0 and documentId = 2 and d = doc_shipping and ident = alice
      and now = 5000 and title_arg = "Some (js ''Mine'')" and content_arg = None]
  by (simp add: alice_def auth_org_def falsy_def acme_def globex_def js_def state0_def db_get_def
      doc_refunds_def doc_shipping_def vector_search_def by_score_def)

section \<open>Listing documents\<close>

lemma sorted_insert_by_newest_first:
  assumes "sorted_wrt (\<lambda>a b. createdAt (snd b) \<le> createdAt (snd a)) xs"
  shows "sorted_wrt (\<lambda>a b. createdAt (snd b) \<le> createdAt (snd a)) (insert_by newest_first x xs)"
  using assms
proof (induction xs)
  case Nil
  then show ?case by simp
next
  case (Cons y ys)
  show ?case
  proof (cases "newest_first x y \<le> 0")
    case True
    then have "createdAt (snd y) \<le> createdAt (snd x)" by (simp add: newest_first_def)
    with Cons.prems True show ?thesis by fastforce
  next
    case False
    then have "createdAt (snd x) \<le> createdAt (snd y)" by (simp add: newest_first_def)
    with Cons False show ?thesis by (auto simp: set_insert_by)
  qed
qed

lemma sorted_js_sort_newest_first:
  "sorted_wrt (\<lambda>a b. createdAt (snd b) \<le> createdAt (snd a)) (js_sort newest_first xs)"
  by (induction xs) (simp_all add: sorted_insert_by_newest_first)

text \<open>
  Claim C9. For a caller signed in to an organization, \<open>getAll\<close> returns exactly the
  documents of the table whose \<open>organizationId\<close> is the caller's organization, each as
  often as it is stored, ordered by \<open>createdAt\<close>, newest first; when the organization has no
  document it returns the empty list, not an error.
\<close>

theorem getAll_newest_first:
  assumes "auth_org ident = Inr org"
  shows "\<exists>ds. getAll ident s = Inr ds \<and>
           mset ds = mset (filter (\<lambda>(i, d). organizationId d = org) (db s)) \<and>
           sorted_wrt (\<lambda>a b. createdAt (snd b) \<le> createdAt (snd a)) ds \<and>
           ((\<forall>(i, d) \<in> set (db s). organizationId d \<noteq> org) \<longrightarrow> ds = [])"
proof -
  let ?ds = "js_sort newest_first (by_organization_id org s)"
  have 1: "getAll ident s = Inr ?ds"
    using assms by (simp add: getAll_def)
  have 2: "mset ?ds = mset (filter (\<lambda>(i, d). organizationId d = org) (db s))"
    by (simp add: mset_js_sort by_organization_id_def)
  have 3: "sorted_wrt (\<lambda>a b. createdAt (snd b) \<le> createdAt (snd a)) ?ds"
    by (rule sorted_js_sort_newest_first)
  have 4: "(\<forall>(i, d) \<in> set (db s). organizationId d \<noteq> org) \<longrightarrow> ?ds = []"
  proof
    assume "\<forall>(i, d) \<in> set (db s). organizationId d \<noteq> org"
    then have "by_organization_id org s = []"
      by (auto simp: by_organization_id_def filter_empty_conv)
    then show "?ds = []" by simp
  qed
  from 1 2 3 4 show ?thesis by blast
qed

theorem getAll_newest_first_witness:
  "auth_org alice = Inr acme \<and>
   getAll alice \<lparr> db = [(1, doc_refunds), (2, doc_shipping), (3, doc_refunds\<lparr> createdAt := 3000 \<rparr>),
        (4, doc_refunds\<lparr> createdAt := 500 \<rparr>)], next_id = 5, storage = {} \<rparr> =
     Inr [(3, doc_refunds\<lparr> createdAt := 3000 \<rparr>), (1, doc_refunds), (4, doc_refunds\<lparr> createdAt := 500 \<rparr>)] \<and>
   getAll (Some \<lparr> orgId = Some (js ''initech'') \<rparr>) state0 = Inr []"
  using getAll_newest_first [of alice acme
      "\<lparr> db = [(1, doc_refunds), (2, doc_shipping), (3, doc_refunds\<lparr> createdAt := 3000 \<rparr>),
        (4, doc_refunds\<lparr> createdAt := 500 \<rparr>)], next_id = 5, storage = {} \<rparr>"]
  by (simp add: getAll_def alice_def auth_org_def falsy_def acme_def globex_def js_def state0_def
      doc_refunds_def doc_shipping_def by_organization_id_def newest_first_def)

section \<open>The embedding model adapter\<close>

lemma promise_all_map:
  "\<forall>t \<in> set ts. f t = Inr (h t) \<Longrightarrow> promise_all (map f ts) = Inr (map h ts)"
  by (induction ts) simp_all

lemma first_item_vec_not_array: "\<not> is_array (first_item (map JNumber v))"
  by (cases v) simp_all

lemma embed_flat:
  "v1_embed p = Some f \<Longrightarrow> f t = Inr (vec v) \<Longrightarrow> embed p t = Inr (vec v)"
  by (simp add: embed_def vec_def first_item_vec_not_array)

lemma embed_wrapped:
  "v1_embed p = Some f \<Longrightarrow> f t = Inr (JArray [vec v]) \<Longrightarrow> embed p t = Inr (vec v)"
  by (simp add: embed_def vec_def)

lemma embed_via_batch:
  "v1_embed p = None \<Longrightarrow> v1_embedMany p = Some g \<Longrightarrow> g [t] = Inr (JArray [vec v]) \<Longrightarrow>
     embed p t = Inr (vec v)"
  by (simp add: embed_def)

lemma embed_adapter_error:
  "(\<exists>m. embed p t = Inl (AdapterError m)) \<longleftrightarrow> v1_embed p = None \<and> v1_embedMany p = None"
  by (auto simp: embed_def split: option.splits sum.splits)

lemma embed_no_method:
  "v1_embed p = None \<Longrightarrow> v1_embedMany p = None \<Longrightarrow>
     embed p t = Inl (AdapterError ''v1 embedding model has no embed/embedMany'')"
  by (simp add: embed_def)

lemma embedMany_batch:
  "v1_embedMany p = Some g \<Longrightarrow> g ts = Inr r \<Longrightarrow> embedMany p ts = Inr r"
  by (simp add: embedMany_def)

lemma embedMany_fan_out:
  "v1_embedMany p = None \<Longrightarrow> v1_embed p = Some f \<Longrightarrow> \<forall>t \<in> set ts. f t = Inr (h t) \<Longrightarrow>
     embedMany p ts = Inr (JArray (map h ts))"
  using promise_all_map [of ts f h] by (simp add: embedMany_def)

lemma promise_all_Inr: "promise_all rs = Inr xs \<Longrightarrow> rs = map Inr xs"
  by (induction rs arbitrary: xs) (auto split: sum.splits)

lemma promise_all_Inl: "promise_all rs = Inl m \<Longrightarrow> Inl m \<in> set rs"
  by (induction rs) (auto split: sum.splits)

lemma promise_all_fulfilled:
  "\<forall>r \<in> set rs. \<exists>x. r = Inr x \<Longrightarrow> \<exists>xs. promise_all rs = Inr xs"
  by (induction rs) (auto split: sum.splits)

lemma embed_rejected:
  "v1_embed p = Some f \<Longrightarrow> f t = Inl m \<Longrightarrow> embed p t = Inl (ProviderError m)"
  by (simp add: embed_def)

lemma embed_batch_rejected:
  "v1_embed p = None \<Longrightarrow> v1_embedMany p = Some g \<Longrightarrow> g [t] = Inl m \<Longrightarrow>
     embed p t = Inl (ProviderError m)"
  by (simp add: embed_def)

lemma embedMany_batch_rejected:
  "v1_embedMany p = Some g \<Longrightarrow> g ts = Inl m \<Longrightarrow> embedMany p ts = Inl (ProviderError m)"
  by (simp add: embedMany_def)

lemma embedMany_no_method:
  "v1_embedMany p = None \<Longrightarrow> v1_embed p = None \<Longrightarrow>
     embedMany p ts = Inl (AdapterError ''v1 embedding model can't embedMany'')"
  by (simp add: embedMany_def)

lemma embedMany_fan_out_result:
  assumes "v1_embedMany p = None" and "v1_embed p = Some f" and "embedMany p ts = Inr r"
  shows "\<exists>outs. r = JArray outs \<and> length outs = length ts \<and>
           (\<forall>i < length ts. f (ts ! i) = Inr (outs ! i))"
proof -
  from assms obtain outs where p: "promise_all (map f ts) = Inr outs" and r: "r = JArray outs"
    by (auto simp: embedMany_def split: sum.splits)
  from p have m: "map f ts = map Inr outs" by (rule promise_all_Inr)
  then have l: "length outs = length ts" by (metis length_map)
  have "f (ts ! i) = Inr (outs ! i)" if "i < length ts" for i
    using that l m by (metis nth_map)
  with r l show ?thesis by blast
qed

lemma embedMany_fan_out_fulfilled:
  assumes "v1_embedMany p = None" and "v1_embed p = Some f"
    and "\<forall>t \<in> set ts. \<exists>out. f t = Inr out"
  shows "\<exists>r. embedMany p ts = Inr r"
proof -
  from assms(3) have "\<forall>r \<in> set (map f ts). \<exists>x. r = Inr x" by auto
  then obtain outs where "promise_all (map f ts) = Inr outs"
    using promise_all_fulfilled by blast
  with assms(1,2) show ?thesis by (simp add: embedMany_def)
qed

lemma embedMany_fan_out_rejected:
  assumes "v1_embedMany p = None" and "v1_embed p = Some f" and "embedMany p ts = Inl e"
  shows "\<exists>t \<in> set ts. \<exists>m. f t = Inl m \<and> e = ProviderError m"
proof -
  from assms obtain m where p: "promise_all (map f ts) = Inl m" and e: "e = ProviderError m"
    by (auto simp: embedMany_def split: sum.splits)
  from promise_all_Inl [OF p] obtain t where "t \<in> set ts" and "f t = Inl m" by auto
  with e show ?thesis by blast
qed

text \<open>
  Claim C3, as stated: for every sequence of \<open>N\<close> texts \<open>embedMany\<close> returns exactly \<open>N\<close>
  vectors, the one at position \<open>i\<close> for the text at position \<open>i\<close>, and the same output
  whatever call shape the provider exposes. It does not: a batch answer with one vector
  for two texts is returned as it is; a single-text call that rejects makes the whole
  call reject; and for a provider whose single-text method answers with an array holding
  the vector, which \<open>embed\<close> unwraps, the fan-out returns the arrays, not the vectors a
  batch method of the same provider returns.
\<close>

theorem embedMany_shape_counterexample:
  "embedMany \<lparr> v1_embed = None, v1_embedMany = Some (\<lambda>ts. Inr (JArray [vec [1]])) \<rparr>
     [js ''a'', js ''bc''] = Inr (JArray [vec [1]]) \<and>
   embedMany \<lparr> v1_embed = Some (\<lambda>t. if t = js ''bc'' then Inl ''unavailable'' else Inr (vec [1])),
               v1_embedMany = None \<rparr>
     [js ''a'', js ''bc''] = Inl (ProviderError ''unavailable'') \<and>
   embed \<lparr> v1_embed = Some (\<lambda>t. Inr (JArray [vec [1/2, 1/4]])), v1_embedMany = None \<rparr> (js ''a'') =
     Inr (vec [1/2, 1/4]) \<and>
   embedMany \<lparr> v1_embed = Some (\<lambda>t. Inr (JArray [vec [1/2, 1/4]])), v1_embedMany = None \<rparr> [js ''a''] =
     Inr (JArray [JArray [vec [1/2, 1/4]]]) \<and>
   embedMany \<lparr> v1_embed = Some (\<lambda>t. Inr (JArray [vec [1/2, 1/4]])),
               v1_embedMany = Some (\<lambda>ts. Inr (JArray (map (\<lambda>t. vec [1/2, 1/4]) ts))) \<rparr> [js ''a''] =
     Inr (JArray [vec [1/2, 1/4]]) \<and>
   JArray [JArray [vec [1/2, 1/4]]] \<noteq> JArray [vec [1/2, 1/4]]"
  by (simp add: embedMany_def embed_def vec_def js_def)

text \<open>
  Claim C3, amended. When the provider exposes the batch method, \<open>embedMany\<close> returns the
  answer of that method as it is, and its rejection when it rejects. When the provider
  exposes only the single-text method, every result \<open>embedMany\<close> returns has exactly \<open>N\<close>
  entries for \<open>N\<close> texts, the entry at position \<open>i\<close> being the answer of the method for
  the text at position \<open>i\<close>; it returns a result when every call answers, and otherwise
  rejects with the rejection of one of the calls. With neither method it fails with an
  error of its own. Hence for a provider whose exposed methods answer each text with its
  vector, the output is the \<open>N\<close> vectors in the order of the texts, the same for the
  three call shapes. The adapter of specification version v1 returns what the SDK call
  returns.
\<close>

theorem embedMany_answers_in_order:
  "(v1_embedMany p = Some g \<longrightarrow>
      (\<forall>r. g ts = Inr r \<longrightarrow> embedMany p ts = Inr r) \<and>
      (\<forall>m. g ts = Inl m \<longrightarrow> embedMany p ts = Inl (ProviderError m))) \<and>
   (v1_embedMany p = None \<and> v1_embed p = Some f \<longrightarrow>
      (\<forall>r. embedMany p ts = Inr r \<longrightarrow>
         (\<exists>outs. r = JArray outs \<and> length outs = length ts \<and>
            (\<forall>i < length ts. f (ts ! i) = Inr (outs ! i)))) \<and>
      ((\<forall>t \<in> set ts. \<exists>out. f t = Inr out) \<longrightarrow> (\<exists>r. embedMany p ts = Inr r)) \<and>
      (\<forall>e. embedMany p ts = Inl e \<longrightarrow> (\<exists>t \<in> set ts. \<exists>m. f t = Inl m \<and> e = ProviderError m))) \<and>
   (v1_embedMany p = None \<and> v1_embed p = None \<longrightarrow>
      embedMany p ts = Inl (AdapterError ''v1 embedding model can't embedMany'')) \<and>
   ((\<forall>g'. v1_embedMany p = Some g' \<longrightarrow> g' ts = Inr (JArray (map (\<lambda>t. vec (E t)) ts))) \<and>
    (\<forall>f'. v1_embed p = Some f' \<longrightarrow> (\<forall>t \<in> set ts. f' t = Inr (vec (E t)))) \<and>
    (v1_embed p \<noteq> None \<or> v1_embedMany p \<noteq> None) \<longrightarrow>
      embedMany p ts = Inr (JArray (map (\<lambda>t. vec (E t)) ts))) \<and>
   doEmbed sdk ts = sdk ts"
proof -
  have 1: "v1_embedMany p = Some g \<longrightarrow>
      (\<forall>r. g ts = Inr r \<longrightarrow> embedMany p ts = Inr r) \<and>
      (\<forall>m. g ts = Inl m \<longrightarrow> embedMany p ts = Inl (ProviderError m))"
    using embedMany_batch [of p g ts] embedMany_batch_rejected [of p g ts] by blast
  have 2: "v1_embedMany p = None \<and> v1_embed p = Some f \<longrightarrow>
      (\<forall>r. embedMany p ts = Inr r \<longrightarrow>
         (\<exists>outs. r = JArray outs \<and> length outs = length ts \<and>
            (\<forall>i < length ts. f (ts ! i) = Inr (outs ! i)))) \<and>
      ((\<forall>t \<in> set ts. \<exists>out. f t = Inr out) \<longrightarrow> (\<exists>r. embedMany p ts = Inr r)) \<and>
      (\<forall>e. embedMany p ts = Inl e \<longrightarrow> (\<exists>t \<in> set ts. \<exists>m. f t = Inl m \<and> e = ProviderError m))"
    using embedMany_fan_out_result [of p f ts] embedMany_fan_out_fulfilled [of p f ts]
      embedMany_fan_out_rejected [of p f ts]
    by (intro impI conjI allI) (elim conjE, assumption)+
  have 3: "v1_embedMany p = None \<and> v1_embed p = None \<longrightarrow>
      embedMany p ts = Inl (AdapterError ''v1 embedding model can't embedMany'')"
    by (simp add: embedMany_no_method)
  have 4: "(\<forall>g'. v1_embedMany p = Some g' \<longrightarrow> g' ts = Inr (JArray (map (\<lambda>t. vec (E t)) ts))) \<and>
    (\<forall>f'. v1_embed p = Some f' \<longrightarrow> (\<forall>t \<in> set ts. f' t = Inr (vec (E t)))) \<and>
    (v1_embed p \<noteq> None \<or> v1_embedMany p \<noteq> None) \<longrightarrow>
      embedMany p ts = Inr (JArray (map (\<lambda>t. vec (E t)) ts))"
  proof (intro impI, elim conjE)
    assume batch: "\<forall>g'. v1_embedMany p = Some g' \<longrightarrow> g' ts = Inr (JArray (map (\<lambda>t. vec (E t)) ts))"
      and single: "\<forall>f'. v1_embed p = Some f' \<longrightarrow> (\<forall>t \<in> set ts. f' t = Inr (vec (E t)))"
      and exposed: "v1_embed p \<noteq> None \<or> v1_embedMany p \<noteq> None"
    show "embedMany p ts = Inr (JArray (map (\<lambda>t. vec (E t)) ts))"
    proof (cases "v1_embedMany p")
      case (Some g')
      with batch show ?thesis by (simp add: embedMany_batch)
    next
      case None
      with exposed obtain f' where f': "v1_embed p = Some f'" by auto
      with single have "\<forall>t \<in> set ts. f' t = Inr (vec (E t))" by simp
      with None f' show ?thesis by (rule embedMany_fan_out)
    qed
  qed
  have 5: "doEmbed sdk ts = sdk ts"
    by (simp add: doEmbed_def split: sum.splits)
  from 1 2 3 4 5 show ?thesis by (intro conjI)
qed

theorem embedMany_answers_in_order_witness:
  "embedMany \<lparr> v1_embed = Some (\<lambda>t. Inr (vec [real (length t), 1])), v1_embedMany = None \<rparr>
     [js ''a'', js ''bc'', js ''''] = Inr (JArray [vec [1, 1], vec [2, 1], vec [0, 1]]) \<and>
   embedMany \<lparr> v1_embed = None,
       v1_embedMany = Some (\<lambda>ts. Inr (JArray (map (\<lambda>t. vec [real (length t), 1]) ts))) \<rparr>
     [js ''a'', js ''bc'', js ''''] = Inr (JArray [vec [1, 1], vec [2, 1], vec [0, 1]]) \<and>
   embedMany \<lparr> v1_embed = Some (\<lambda>t. Inr (vec [real (length t), 1])),
       v1_embedMany = Some (\<lambda>ts. Inr (JArray (map (\<lambda>t. vec [real (length t), 1]) ts))) \<rparr>
     [js ''a'', js ''bc'', js ''''] = Inr (JArray [vec [1, 1], vec [2, 1], vec [0, 1]]) \<and>
   embedMany \<lparr> v1_embed = Some (\<lambda>t. Inr (vec [real (length t), 1])),
       v1_embedMany = Some (\<lambda>ts. Inl ''quota'') \<rparr>
     [js ''a'', js ''bc'', js ''''] = Inl (ProviderError ''quota'') \<and>
   embedMany \<lparr> v1_embed = None, v1_embedMany = None \<rparr> [js ''a'', js ''bc'', js ''''] =
     Inl (AdapterError ''v1 embedding model can't embedMany'')"
  using embedMany_answers_in_order
      [where p = "\<lparr> v1_embed = Some (\<lambda>t. Inr (vec [real (length t), 1])), v1_embedMany = None \<rparr>"
        and ts = "[js ''a'', js ''bc'', js '''']" and E = "\<lambda>t. [real (length t), 1]"
        and f = "\<lambda>t. Inr (vec [real (length t), 1])"]
    embedMany_answers_in_order
      [where p = "\<lparr> v1_embed = None,
            v1_embedMany = Some (\<lambda>ts. Inr (JArray (map (\<lambda>t. vec [real (length t), 1]) ts))) \<rparr>"
        and ts = "[js ''a'', js ''bc'', js '''']" and E = "\<lambda>t. [real (length t), 1]"
        and g = "\<lambda>ts. Inr (JArray (map (\<lambda>t. vec [real (length t), 1]) ts))"]
    embedMany_answers_in_order
      [where p = "\<lparr> v1_embed = Some (\<lambda>t. Inr (vec [real (length t), 1])),
            v1_embedMany = Some (\<lambda>ts. Inr (JArray (map (\<lambda>t. vec [real (length t), 1]) ts))) \<rparr>"
        and ts = "[js ''a'', js ''bc'', js '''']" and E = "\<lambda>t. [real (length t), 1]"]
    embedMany_answers_in_order
      [where p = "\<lparr> v1_embed = Some (\<lambda>t. Inr (vec [real (length t), 1])),
            v1_embedMany = Some (\<lambda>ts. Inl ''quota'') \<rparr>"
        and ts = "[js ''a'', js ''bc'', js '''']" and g = "\<lambda>ts. Inl ''quota''"]
    embedMany_answers_in_order
      [where p = "\<lparr> v1_embed = None, v1_embedMany = None \<rparr>"
        and ts = "[js ''a'', js ''bc'', js '''']"]
  by (simp add: embedMany_def js_def)

text \<open>
  Claim C5, as stated: \<open>embed\<close> succeeds whenever the provider exposes one of the call
  shapes, and fails only when no method can satisfy the call. It does not: for a
  provider that exposes both methods, whose single-text method rejects and whose batch
  method answers with the vector, \<open>embed\<close> fails with the rejection and never calls the
  batch method, which alone does satisfy the call.
\<close>

theorem embed_no_fallback_counterexample:
  "embed \<lparr> v1_embed = Some (\<lambda>t. Inl ''unavailable''),
           v1_embedMany = Some (\<lambda>ts. Inr (JArray (map (\<lambda>t. vec [1/2, 1/4]) ts))) \<rparr> (js ''refunds'') =
     Inl (ProviderError ''unavailable'') \<and>
   embed \<lparr> v1_embed = None,
           v1_embedMany = Some (\<lambda>ts. Inr (JArray (map (\<lambda>t. vec [1/2, 1/4]) ts))) \<rparr> (js ''refunds'') =
     Inr (vec [1/2, 1/4])"
  by (simp add: embed_def)

text \<open>
  Claim C5, amended. \<open>embed\<close> calls the first method the provider exposes, chosen by
  presence: the single-text method when it is exposed, otherwise the batch method with
  the one text. It returns the vector that call answers with (for the single-text method
  a vector or an array holding it, for the batch method an array holding it), and fails
  with the rejection of that call when it rejects, without trying the other method. It
  fails with an error of its own exactly when the provider exposes neither method.
\<close>

theorem embed_calls_first_exposed_method:
  "(v1_embed p = Some f \<longrightarrow>
      (\<forall>m. f t = Inl m \<longrightarrow> embed p t = Inl (ProviderError m)) \<and>
      (f t = Inr (vec v) \<or> f t = Inr (JArray [vec v]) \<longrightarrow> embed p t = Inr (vec v))) \<and>
   (v1_embed p = None \<and> v1_embedMany p = Some g \<longrightarrow>
      (\<forall>m. g [t] = Inl m \<longrightarrow> embed p t = Inl (ProviderError m)) \<and>
      (g [t] = Inr (JArray [vec v]) \<longrightarrow> embed p t = Inr (vec v))) \<and>
   ((\<exists>m. embed p t = Inl (AdapterError m)) \<longleftrightarrow> v1_embed p = None \<and> v1_embedMany p = None) \<and>
   (v1_embed p = None \<and> v1_embedMany p = None \<longrightarrow>
      embed p t = Inl (AdapterError ''v1 embedding model has no embed/embedMany''))"
proof -
  have 1: "v1_embed p = Some f \<longrightarrow>
      (\<forall>m. f t = Inl m \<longrightarrow> embed p t = Inl (ProviderError m)) \<and>
      (f t = Inr (vec v) \<or> f t = Inr (JArray [vec v]) \<longrightarrow> embed p t = Inr (vec v))"
    using embed_rejected [of p f t] embed_flat [of p f t v] embed_wrapped [of p f t v] by blast
  have 2: "v1_embed p = None \<and> v1_embedMany p = Some g \<longrightarrow>
      (\<forall>m. g [t] = Inl m \<longrightarrow> embed p t = Inl (ProviderError m)) \<and>
      (g [t] = Inr (JArray [vec v]) \<longrightarrow> embed p t = Inr (vec v))"
    using embed_batch_rejected [of p g t] embed_via_batch [of p g t v] by blast
  have 3: "(\<exists>m. embed p t = Inl (AdapterError m)) \<longleftrightarrow> v1_embed p = None \<and> v1_embedMany p = None"
    by (rule embed_adapter_error)
  have 4: "v1_embed p = None \<and> v1_embedMany p = None \<longrightarrow>
      embed p t = Inl (AdapterError ''v1 embedding model has no embed/embedMany'')"
    by (simp add: embed_no_method)
  from 1 2 3 4 show ?thesis by (intro conjI)
qed

theorem embed_calls_first_exposed_method_witness:
  "embed \<lparr> v1_embed = Some (\<lambda>t. Inr (vec [1/2, 1/4])),
           v1_embedMany = Some (\<lambda>ts. Inl ''batch not called'') \<rparr> (js ''refunds'') =
     Inr (vec [1/2, 1/4]) \<and>
   embed \<lparr> v1_embed = Some (\<lambda>t. Inl ''unavailable''),
           v1_embedMany = Some (\<lambda>ts. Inr (JArray (map (\<lambda>t. vec [1/2, 1/4]) ts))) \<rparr> (js ''refunds'') =
     Inl (ProviderError ''unavailable'') \<and>
   embed \<lparr> v1_embed = None, v1_embedMany = Some (\<lambda>ts. Inr (JArray (map (\<lambda>t. vec [1/2, 1/4]) ts))) \<rparr>
     (js ''refunds'') = Inr (vec [1/2, 1/4]) \<and>
   embed \<lparr> v1_embed = None, v1_embedMany = None \<rparr> (js ''refunds'') =
     Inl (AdapterError ''v1 embedding model has no embed/embedMany'')"
  using embed_calls_first_exposed_method
      [where p = "\<lparr> v1_embed = Some (\<lambda>t. Inr (vec [1/2, 1/4])),
             v1_embedMany = Some (\<lambda>ts. Inl ''batch not called'') \<rparr>"
        and f = "\<lambda>t. Inr (vec [1/2, 1/4])" and t = "js ''refunds''" and v = "[1/2, 1/4]"]
    embed_calls_first_exposed_method
      [where p = "\<lparr> v1_embed = Some (\<lambda>t. Inl ''unavailable''),
             v1_embedMany = Some (\<lambda>ts. Inr (JArray (map (\<lambda>t. vec [1/2, 1/4]) ts))) \<rparr>"
        and f = "\<lambda>t. Inl ''unavailable''" and t = "js ''refunds''"]
    embed_calls_first_exposed_method
      [where p = "\<lparr> v1_embed = None,
             v1_embedMany = Some (\<lambda>ts. Inr (JArray (map (\<lambda>t. vec [1/2, 1/4]) ts))) \<rparr>"
        and t = "js ''refunds''" and v = "[1/2, 1/4]"
        and g = "\<lambda>ts. Inr (JArray (map (\<lambda>t. vec [1/2, 1/4]) ts))"]
    embed_calls_first_exposed_method
      [where p = "\<lparr> v1_embed = None, v1_embedMany = None \<rparr>" and t = "js ''refunds''"]
  by simp

text \<open>
  Claim C4, as stated: a provider vector whose length differs from the configured
  dimensionality 3072 makes the adapter fail with a dimension mismatch. It does not: a
  vector of length 2 is returned by \<open>embed\<close>, and one of length 1 by \<open>embedMany\<close>.
\<close>

theorem embed_wrong_dimension_counterexample:
  "embed \<lparr> v1_embed = Some (\<lambda>t. Inr (vec [1/2, 1/4])), v1_embedMany = None \<rparr> (js ''refunds'') =
     Inr (vec [1/2, 1/4]) \<and>
   length [1/2, 1/4 :: real] \<noteq> embeddingDimension \<and>
   embedMany \<lparr> v1_embed = None, v1_embedMany = Some (\<lambda>ts. Inr (JArray (map (\<lambda>t. vec [1]) ts))) \<rparr>
     [js ''refunds''] = Inr (JArray [vec [1]]) \<and>
   length [1 :: real] \<noteq> embeddingDimension"
  by (simp add: embed_def embedMany_def vec_def embeddingDimension_def)

text \<open>
  Claim C4, amended. The adapter does not compare the length of a provider vector with
  the configured dimensionality: \<open>embed\<close> and \<open>embedMany\<close> return the vectors of the
  provider as they are, whatever their length, never truncated and never padded.
\<close>

theorem adapter_returns_vectors_unchecked:
  "(v1_embed p = Some f \<and> f t = Inr (vec v) \<longrightarrow> embed p t = Inr (vec v)) \<and>
   (v1_embed p = None \<and> v1_embedMany p = Some g \<and> g [t] = Inr (JArray [vec v]) \<longrightarrow>
      embed p t = Inr (vec v)) \<and>
   (v1_embedMany p = Some g \<and> g ts = Inr r \<longrightarrow> embedMany p ts = Inr r) \<and>
   (v1_embedMany p = None \<and> v1_embed p = Some f \<and> (\<forall>x \<in> set ts. f x = Inr (vec (E x))) \<longrightarrow>
      embedMany p ts = Inr (JArray (map (\<lambda>x. vec (E x)) ts)))"
  using embed_flat [of p f t v] embed_via_batch [of p g t v] embedMany_batch [of p g ts r]
    embedMany_fan_out [of p f ts "\<lambda>x. vec (E x)"]
  by blast

theorem adapter_returns_vectors_unchecked_witness:
  "embed \<lparr> v1_embed = Some (\<lambda>t. Inr (vec [1/2, 1/4, 1/8])), v1_embedMany = None \<rparr> (js ''refunds'') =
     Inr (vec [1/2, 1/4, 1/8]) \<and>
   embedMany \<lparr> v1_embed = Some (\<lambda>t. Inr (vec (replicate (length t) 1))), v1_embedMany = None \<rparr>
     [js ''a'', js ''bc''] = Inr (JArray [vec [1], vec [1, 1]])"
  using adapter_returns_vectors_unchecked
      [of "\<lparr> v1_embed = Some (\<lambda>t. Inr (vec [1/2, 1/4, 1/8])), v1_embedMany = None \<rparr>"
        "\<lambda>t. Inr (vec [1/2, 1/4, 1/8])" "js ''refunds''" "[1/2, 1/4, 1/8]"]
    adapter_returns_vectors_unchecked
      [of "\<lparr> v1_embed = Some (\<lambda>t. Inr (vec (replicate (length t) 1))), v1_embedMany = None \<rparr>"
        "\<lambda>t. Inr (vec (replicate (length t) 1))" _ _ _ "[js ''a'', js ''bc'']" _
        "\<lambda>t. replicate (length t) 1"]
  by (simp add: js_def)

section \<open>The token budget of retrieval\<close>

lemma approx_tokens_le_iff: "approx_tokens s \<le> m \<longleftrightarrow> length s \<le> 4 * m + 3"
  by (auto simp: approx_tokens_def)

lemma truncated_piece_fits:
  assumes "approx_tokens buf \<le> max_tokens"
    and "piece = take (4 * (max_tokens - approx_tokens buf) - length sep) c"
    and "piece \<noteq> []"
  shows "approx_tokens (buf @ sep @ piece) \<le> max_tokens"
proof -
  let ?room = "4 * (max_tokens - approx_tokens buf) - length sep"
  from assms have "0 < ?room" by (cases "?room") auto
  moreover from assms have "length piece \<le> ?room" by simp
  ultimately have "length sep + length piece \<le> 4 * (max_tokens - approx_tokens buf)"
    by arith
  moreover have "length buf \<le> 4 * approx_tokens buf + 3"
    by (simp add: approx_tokens_def)
  ultimately have "length (buf @ sep @ piece) \<le> 4 * max_tokens + 3"
    using assms(1) by simp
  then show ?thesis by (simp only: approx_tokens_le_iff)
qed

lemma accumulate_within_budget:
  "approx_tokens buf \<le> max_tokens \<Longrightarrow>
     approx_tokens (fst (accumulate max_tokens min_chars delimiter cands buf srcs)) \<le> max_tokens"
proof (induction cands arbitrary: buf srcs)
  case Nil
  then show ?case by simp
next
  case (Cons cand rest)
  obtain i d where cand: "cand = (i, d)" by (cases cand)
  define sep where "sep = (if buf = [] then [] else delimiter)"
  define piece where "piece = take (4 * (max_tokens - approx_tokens buf) - length sep) (content d)"
  have unfold: "accumulate max_tokens min_chars delimiter (cand # rest) buf srcs =
     (if approx_tokens (buf @ sep @ content d) \<le> max_tokens
      then accumulate max_tokens min_chars delimiter rest
             (buf @ sep @ content d) (srcs @ [(i, title d)])
      else if piece \<noteq> [] \<and> min_chars \<le> length piece
           then (buf @ sep @ piece, srcs @ [(i, title d)])
           else (buf, srcs))"
    unfolding cand sep_def piece_def by (simp only: accumulate.simps Let_def)
  show ?case
  proof (cases "approx_tokens (buf @ sep @ content d) \<le> max_tokens")
    case True
    from Cons.IH [OF True] True show ?thesis
      by (simp only: unfold if_True)
  next
    case False
    show ?thesis
    proof (cases "piece \<noteq> [] \<and> min_chars \<le> length piece")
      case True
      then have "approx_tokens (buf @ sep @ piece) \<le> max_tokens"
        using truncated_piece_fits [OF Cons.prems piece_def] by simp
      with False True show ?thesis
        by (simp add: unfold)
    next
      case no: False
      with False Cons.prems show ?thesis
        by (auto simp: unfold)
    qed
  qed
qed

lemma retrieve_failure:
  "embed_one query_text = Inl e \<Longrightarrow>
     retrieve embed_one search min_chars delimiter s tenant_id query_text max_tokens max_candidates =
       Inl QueryEmbeddingFailed"
  by (simp add: retrieve_def)

lemma retrieve_success:
  "embed_one query_text = Inr qv \<Longrightarrow>
     retrieve embed_one search min_chars delimiter s tenant_id query_text max_tokens
         max_candidates =
       Inr \<lparr> context_text = fst (accumulate max_tokens min_chars delimiter
               (map fst (js_sort by_rank (concat (map (\<lambda>(i, score).
                  case db_get s i of None \<Rightarrow> [] | Some d \<Rightarrow> [((i, d), score)])
                (search tenant_id qv max_candidates))))) [] []),
             sources = snd (accumulate max_tokens min_chars delimiter
               (map fst (js_sort by_rank (concat (map (\<lambda>(i, score).
                  case db_get s i of None \<Rightarrow> [] | Some d \<Rightarrow> [((i, d), score)])
                (search tenant_id qv max_candidates))))) [] []) \<rparr>"
  unfolding retrieve_def Let_def by (simp add: case_prod_beta)

text \<open>
  Claim C6. Whatever the tenant, the query, the budget, the candidates found and the
  size of their contents, the context string \<open>retrieve\<close> returns has an approximate
  token count of at most \<open>max_tokens\<close>; and \<open>retrieve\<close> returns a result whenever the
  query could be embedded.
\<close>

theorem retrieve_within_budget:
  "(\<forall>r. retrieve embed_one search min_chars delimiter s tenant_id query_text max_tokens
           max_candidates = Inr r \<longrightarrow> approx_tokens (context_text r) \<le> max_tokens) \<and>
   (\<forall>qv. embed_one query_text = Inr qv \<longrightarrow>
      (\<exists>r. retrieve embed_one search min_chars delimiter s tenant_id query_text max_tokens
              max_candidates = Inr r))"
proof (cases "embed_one query_text")
  case (Inl e)
  then show ?thesis by (simp add: retrieve_failure)
next
  case (Inr qv)
  define cands where "cands = map fst (js_sort by_rank (concat (map (\<lambda>(i, score).
                  case db_get s i of None \<Rightarrow> [] | Some d \<Rightarrow> [((i, d), score)])
                (search tenant_id qv max_candidates))))"
  have r: "retrieve embed_one search min_chars delimiter s tenant_id query_text max_tokens
         max_candidates =
       Inr \<lparr> context_text = fst (accumulate max_tokens min_chars delimiter cands [] []),
             sources = snd (accumulate max_tokens min_chars delimiter cands [] []) \<rparr>"
    unfolding cands_def using Inr by (rule retrieve_success)
  have "approx_tokens (fst (accumulate max_tokens min_chars delimiter cands [] [])) \<le> max_tokens"
    by (rule accumulate_within_budget) (simp add: approx_tokens_def)
  with r show ?thesis by auto
qed

theorem retrieve_within_budget_witness:
  "retrieve (\<lambda>q. Inr [1, 0])
     (vector_search (\<lambda>q e. sum_list (map2 (*) q e))
        \<lparr> db = [(1, doc_refunds), (2, doc_shipping),
                 (3, doc_refunds\<lparr> title := js ''Returns'',
                       content := js ''Returns within 30 days of delivery'',
                       embedding := Some [1/4, 1/2] \<rparr>)], next_id = 4, storage = {} \<rparr>)
     4 (js ''|'')
     \<lparr> db = [(1, doc_refunds), (2, doc_shipping),
              (3, doc_refunds\<lparr> title := js ''Returns'',
                    content := js ''Returns within 30 days of delivery'',
                    embedding := Some [1/4, 1/2] \<rparr>)], next_id = 4, storage = {} \<rparr>
     acme (js ''How long do refunds take?'') 6 5 =
     Inr \<lparr> context_text = js ''Refunds take 5 days|Returns'',
           sources = [(1, js ''Refunds''), (3, js ''Returns'')] \<rparr> \<and>
   approx_tokens (js ''Refunds take 5 days|Returns'') = 6 \<and>
   approx_tokens (js ''Returns within 30 days of delivery'') = 8"
  using retrieve_within_budget
    [of "\<lambda>q. Inr [1, 0]"
      "vector_search (\<lambda>q e. sum_list (map2 (*) q e))
        \<lparr> db = [(1, doc_refunds), (2, doc_shipping),
                 (3, doc_refunds\<lparr> title := js ''Returns'',
                       content := js ''Returns within 30 days of delivery'',
                       embedding := Some [1/4, 1/2] \<rparr>)], next_id = 4, storage = {} \<rparr>"
      4 "js ''|''"
      "\<lparr> db = [(1, doc_refunds), (2, doc_shipping),
              (3, doc_refunds\<lparr> title := js ''Returns'',
                    content := js ''Returns within 30 days of delivery'',
                    embedding := Some [1/4, 1/2] \<rparr>)], next_id = 4, storage = {} \<rparr>"
      acme "js ''How long do refunds take?''" 6 5]
  by (simp add: retrieve_def vector_search_def by_score_def by_rank_def db_get_def approx_tokens_def
      doc_refunds_def doc_shipping_def acme_def globex_def js_def Let_def)

end
